theory Spec2Isabelle
  imports Main "HOL-Library.Word"
begin

section \<open>The Vulkan device's per-thread data (vk_device.hh)\<close>

text \<open>
  The header \<^verbatim>\<open>source/blender/gpu/vulkan/vk_device.hh\<close> declares the classes
  \<^verbatim>\<open>VKThreadData\<close> and \<^verbatim>\<open>VKDevice\<close>. The only member function with a body in the
  header that touches the resource ring is \<^verbatim>\<open>VKThreadData::resource_pool_get\<close>;
  everything else is declared there and defined in files that are not part of the
  sources at hand.
\<close>

subsection \<open>\<^verbatim>\<open>std::array<T, 5>\<close>\<close>

text \<open>
  \<^verbatim>\<open>std::array<VKResourcePool, 5> swap_chain_resources;\<close> stores exactly five
  elements inline; the number is part of the type. The model is a datatype with five
  fields. \<^verbatim>\<open>operator[]\<close> does no bounds check: an index of 5 or more is undefined
  behaviour in C++, which the model returns as \<open>None\<close>.
\<close>

datatype 'a array5 = Array5 'a 'a 'a 'a 'a

fun array5_list :: "'a array5 \<Rightarrow> 'a list" where
  "array5_list (Array5 a0 a1 a2 a3 a4) = [a0, a1, a2, a3, a4]"

definition array5_size :: "'a array5 \<Rightarrow> nat" where
  "array5_size a = length (array5_list a)"

definition array5_at :: "'a array5 \<Rightarrow> nat \<Rightarrow> 'a option" where
  "array5_at a i = (if i < array5_size a then Some (array5_list a ! i) else None)"

subsection \<open>\<^verbatim>\<open>VKThreadData\<close>\<close>

text \<open>
  \<^verbatim>\<open>
  class VKThreadData : public NonCopyable, NonMovable {
   public:
    pthread_t thread_id;
    render_graph::VKRenderGraph render_graph;
    uint32_t current_swap_chain_index = UINT32_MAX;
    std::array<VKResourcePool, 5> swap_chain_resources;
    ...
  };
  \<close>
  \<^verbatim>\<open>pthread_t\<close> is an opaque thread identity, compared for equality only: a natural
  number here. The classes \<^verbatim>\<open>VKRenderGraph\<close> and \<^verbatim>\<open>VKResourcePool\<close> are declared in
  headers outside the sources, so they are the type parameters \<open>'g\<close> and \<open>'p\<close>.
\<close>

type_synonym pthread_t = nat

type_synonym uint32_t = "32 word"

definition UINT32_MAX :: uint32_t where
  "UINT32_MAX = 0xFFFFFFFF"

record ('g, 'p) VKThreadData =
  thread_id :: pthread_t
  render_graph :: 'g
  current_swap_chain_index :: uint32_t
  swap_chain_resources :: "'p array5"

text \<open>
  The constructor \<^verbatim>\<open>VKThreadData(device, thread_id, command_buffer, resources)\<close> is
  defined outside the header. What the header fixes of a new object is the default
  member initialiser of \<^verbatim>\<open>current_swap_chain_index\<close> and the thread identity passed
  in; the render graph and the five pools the constructor builds are parameters.
\<close>

definition VKThreadData_new :: "pthread_t \<Rightarrow> 'g \<Rightarrow> 'p array5 \<Rightarrow> ('g, 'p) VKThreadData" where
  "VKThreadData_new tid graph pools =
     \<lparr>thread_id = tid, render_graph = graph,
      current_swap_chain_index = UINT32_MAX, swap_chain_resources = pools\<rparr>"

text \<open>
  \<^verbatim>\<open>
  VKResourcePool &resource_pool_get()
  {
    if (current_swap_chain_index >= swap_chain_resources.size()) {
      return swap_chain_resources[0];
    }
    return swap_chain_resources[current_swap_chain_index];
  }
  \<close>
  The comparison is between a \<^verbatim>\<open>uint32_t\<close> and a \<^verbatim>\<open>size_t\<close>: the index is
  converted to the wider unsigned type, so it is compared by its value (\<open>unat\<close>).
  The result is the element read, or \<open>None\<close> where the read is out of bounds.
\<close>

definition resource_pool_get :: "('g, 'p) VKThreadData \<Rightarrow> 'p option" where
  "resource_pool_get td =
     (if unat (current_swap_chain_index td) \<ge> array5_size (swap_chain_resources td)
      then array5_at (swap_chain_resources td) 0
      else array5_at (swap_chain_resources td) (unat (current_swap_chain_index td)))"

text \<open>
  The slot that \<^verbatim>\<open>resource_pool_get\<close> reads, as a number: the index the function's
  two branches pass to \<^verbatim>\<open>operator[]\<close>.
\<close>

definition resource_pool_index :: "('g, 'p) VKThreadData \<Rightarrow> nat" where
  "resource_pool_index td =
     (if unat (current_swap_chain_index td) \<ge> array5_size (swap_chain_resources td)
      then 0
      else unat (current_swap_chain_index td))"

section \<open>Discard pools and the device's routing of destruction requests\<close>

text \<open>
  The class \<^verbatim>\<open>VKDiscardPool\<close>, the class \<^verbatim>\<open>VKResourcePool\<close>, the class
  \<^verbatim>\<open>VKContext\<close> and the bodies of \<^verbatim>\<open>VKDevice\<close>'s member functions live in files
  outside the sources at hand (\<^verbatim>\<open>vk_resource_pool.hh\<close>, \<^verbatim>\<open>vk_context.hh\<close>,
  \<^verbatim>\<open>vk_device.cc\<close>). The definitions of this section follow the specification's
  description of them; the fields of \<^verbatim>\<open>VKDevice\<close> are those of the header.
\<close>

subsection \<open>Discard pool\<close>

text \<open>
  Modelled from the spec: the class \<^verbatim>\<open>VKDiscardPool\<close> is missing. "Attributes: an
  append-only queue of (resource handle, kind, retirement condition) entries"; the
  kinds are the GPU objects the specification lists (buffers, images, descriptor sets,
  command resources). A retirement marker is "an opaque token": a number.
\<close>

datatype resource_kind = KindBuffer | KindImage | KindDescriptorSet | KindCommand

type_synonym retirement_marker = nat

record discard_entry =
  entry_handle :: nat
  entry_kind :: resource_kind
  entry_marker :: retirement_marker

record VKDiscardPool =
  pending :: "discard_entry list"

text \<open>
  Modelled from the spec: \<^verbatim>\<open>VKDiscardPool::enqueue\<close> is missing.
  "\<^verbatim>\<open>enqueue(resource, retirement_marker)\<close>: records a resource for deferred release;
  never blocks." The queue is append-only, so the entry goes to its end.
\<close>

definition enqueue :: "VKDiscardPool \<Rightarrow> nat \<times> resource_kind \<Rightarrow> retirement_marker \<Rightarrow> VKDiscardPool" where
  "enqueue pool res m =
     pool\<lparr>pending := pending pool @ [\<lparr>entry_handle = fst res, entry_kind = snd res, entry_marker = m\<rparr>]\<rparr>"

text \<open>
  Modelled from the spec: \<^verbatim>\<open>VKDiscardPool::drain\<close> is missing.
  "\<^verbatim>\<open>drain(force)\<close>: iterates pending entries; releases every entry whose retirement
  marker indicates GPU completion. With \<^verbatim>\<open>force\<close> set (used at teardown or after device
  loss), releases all entries unconditionally after best-effort marker checks."

  Whether the GPU has completed the work behind a marker is an external fact at the
  moment of the call: the argument \<open>signalled\<close>. The loop visits the entries in queue
  order, checks each entry's marker first, and puts the entry on the released list or
  keeps it. The result is the list of entries physically released and the pool that
  remains.
\<close>

fun drain_entries ::
  "bool \<Rightarrow> (retirement_marker \<Rightarrow> bool) \<Rightarrow> discard_entry list \<Rightarrow> discard_entry list \<times> discard_entry list" where
  "drain_entries force signalled [] = ([], [])"
| "drain_entries force signalled (e # es) =
     (let retired = signalled (entry_marker e);
          rest = drain_entries force signalled es
      in if retired \<or> force then (e # fst rest, snd rest) else (fst rest, e # snd rest))"

definition drain ::
  "bool \<Rightarrow> (retirement_marker \<Rightarrow> bool) \<Rightarrow> VKDiscardPool \<Rightarrow> discard_entry list \<times> VKDiscardPool" where
  "drain force signalled pool =
     (let r = drain_entries force signalled (pending pool)
      in (fst r, pool\<lparr>pending := snd r\<rparr>))"

subsection \<open>Resource pool, rendering context and device\<close>

text \<open>
  Modelled from the spec: the class \<^verbatim>\<open>VKResourcePool\<close> is missing. Of a resource pool
  the routing needs the discard pool of its slot ("each Thread Execution Context slot
  may host entries that drain with that slot"; the header's comment: "A thread with a
  context can have multiple discard pools. One for each swap-chain image.").
\<close>

record VKResourcePool =
  discard_pool :: VKDiscardPool

text \<open>
  Modelled from the spec: the constructor of \<^verbatim>\<open>VKResourcePool\<close> is missing. Entries
  are "appended whenever a resource is logically freed", so the discard pool of a new
  resource pool holds none.
\<close>

definition VKResourcePool_new :: VKResourcePool where
  "VKResourcePool_new = \<lparr>discard_pool = \<lparr>pending = []\<rparr>\<rparr>"

text \<open>
  Modelled from the spec: the class \<^verbatim>\<open>VKContext\<close> is missing. A rendering context
  belongs to the thread that issues its work; the registry holds references to
  contexts, told apart by their identity.
\<close>

record VKContext =
  context_id :: nat
  context_thread :: pthread_t

text \<open>
  The fields of \<^verbatim>\<open>VKDevice\<close> that take part in routing, as the header declares them:
  \<^verbatim>\<open>
  Vector<std::reference_wrapper<VKContext>> contexts_;
  Vector<VKThreadData *> thread_data_;
  VKDiscardPool orphaned_data;
  \<close>
  The private members lose their trailing underscore, which a name cannot end with here.
\<close>

record 'g VKDevice =
  contexts :: "VKContext list"
  thread_data :: "('g, VKResourcePool) VKThreadData list"
  orphaned_data :: VKDiscardPool

text \<open>
  The function returns \<^verbatim>\<open>VKDiscardPool &\<close>. A C++ reference to a discard pool of the
  device is a place in the device's state: the orphan pool, or the pool of slot \<open>i\<close> in
  the ring of the thread data of a thread.
\<close>

datatype discard_pool_ref = ThreadDiscardPool pthread_t nat | OrphanDiscardPool

text \<open>
  Modelled from the spec: how the device tells that "the calling thread has a registered
  context" is in the missing body. Here: the registry \<^verbatim>\<open>contexts_\<close> holds a context of
  that thread. The thread data of a thread is the first element of \<^verbatim>\<open>thread_data_\<close>
  with its \<^verbatim>\<open>thread_id\<close> (the specification's "map from operating-system thread
  identity to Thread Execution Context").
\<close>

definition has_registered_context :: "'g VKDevice \<Rightarrow> pthread_t \<Rightarrow> bool" where
  "has_registered_context dev self = (\<exists>c \<in> set (contexts dev). context_thread c = self)"

definition thread_data_find :: "'g VKDevice \<Rightarrow> pthread_t \<Rightarrow> ('g, VKResourcePool) VKThreadData option" where
  "thread_data_find dev self = find (\<lambda>td. thread_id td = self) (thread_data dev)"

text \<open>
  Modelled from the spec: the body of \<^verbatim>\<open>VKDevice::current_thread_data\<close> is missing.
  "Returns the Thread Execution Context for the calling thread, creating one on first
  call from that thread." The function returns \<^verbatim>\<open>VKThreadData &\<close>: the thread data
  found or created, together with the device, which holds the new object when one was
  created. The render graph that the constructor of the new object builds is the argument
  \<open>graph\<close>; its five pools are new. One call is one step here: what happens when two
  calls run at the same time is outside this model.
\<close>

definition current_thread_data ::
  "'g VKDevice \<Rightarrow> pthread_t \<Rightarrow> 'g \<Rightarrow> ('g, VKResourcePool) VKThreadData \<times> 'g VKDevice" where
  "current_thread_data dev self graph =
     (case thread_data_find dev self of
        Some td \<Rightarrow> (td, dev)
      | None \<Rightarrow>
          (let td = VKThreadData_new self graph
                      (Array5 VKResourcePool_new VKResourcePool_new VKResourcePool_new
                              VKResourcePool_new VKResourcePool_new)
           in (td, dev\<lparr>thread_data := thread_data dev @ [td]\<rparr>)))"

text \<open>
  Modelled from the spec: the body of \<^verbatim>\<open>VKDevice::discard_pool_for_current_thread\<close> is
  missing. "Returns the Discard Pool associated with the calling thread's active Resource
  Pool slot if that thread has a registered context; otherwise returns the Device's
  orphan Discard Pool." The calling thread (\<^verbatim>\<open>pthread_self()\<close>) is the argument
  \<open>self\<close>. The thread's Thread Execution Context is the one \<^verbatim>\<open>current_thread_data()\<close>
  returns ("the Device lazily creates or returns that thread's Thread Execution
  Context"), and its active slot is the one \<^verbatim>\<open>resource_pool_get\<close> reads. The function
  returns \<^verbatim>\<open>VKDiscardPool &\<close>, so every call yields a pool: one of the two the
  specification names.
\<close>

definition discard_pool_for_current_thread ::
  "'g VKDevice \<Rightarrow> pthread_t \<Rightarrow> 'g \<Rightarrow> discard_pool_ref \<times> 'g VKDevice" where
  "discard_pool_for_current_thread dev self graph =
     (if has_registered_context dev self
      then (let r = current_thread_data dev self graph
            in (ThreadDiscardPool self (resource_pool_index (fst r)), snd r))
      else (OrphanDiscardPool, dev))"

text \<open>
  Reading and writing the device through such a reference: what \<^verbatim>\<open>pool.enqueue(...)\<close>
  on the returned reference does to the device. A write to a slot of a thread's ring
  changes that slot of the first thread data with the thread's identity and nothing else.
\<close>

definition discard_pool_deref :: "'g VKDevice \<Rightarrow> discard_pool_ref \<Rightarrow> VKDiscardPool option" where
  "discard_pool_deref dev r =
     (case r of
        OrphanDiscardPool \<Rightarrow> Some (orphaned_data dev)
      | ThreadDiscardPool t i \<Rightarrow>
          (case thread_data_find dev t of
             None \<Rightarrow> None
           | Some td \<Rightarrow> map_option discard_pool (array5_at (swap_chain_resources td) i)))"

fun array5_map_at :: "nat \<Rightarrow> ('a \<Rightarrow> 'a) \<Rightarrow> 'a array5 \<Rightarrow> 'a array5" where
  "array5_map_at i f (Array5 a0 a1 a2 a3 a4) =
     (if i = 0 then Array5 (f a0) a1 a2 a3 a4
      else if i = 1 then Array5 a0 (f a1) a2 a3 a4
      else if i = 2 then Array5 a0 a1 (f a2) a3 a4
      else if i = 3 then Array5 a0 a1 a2 (f a3) a4
      else if i = 4 then Array5 a0 a1 a2 a3 (f a4)
      else Array5 a0 a1 a2 a3 a4)"

fun update_first :: "('a \<Rightarrow> bool) \<Rightarrow> ('a \<Rightarrow> 'a) \<Rightarrow> 'a list \<Rightarrow> 'a list" where
  "update_first P f [] = []"
| "update_first P f (x # xs) = (if P x then f x # xs else x # update_first P f xs)"

definition discard_pool_update ::
  "'g VKDevice \<Rightarrow> discard_pool_ref \<Rightarrow> (VKDiscardPool \<Rightarrow> VKDiscardPool) \<Rightarrow> 'g VKDevice" where
  "discard_pool_update dev r f =
     (case r of
        OrphanDiscardPool \<Rightarrow> dev\<lparr>orphaned_data := f (orphaned_data dev)\<rparr>
      | ThreadDiscardPool t i \<Rightarrow>
          dev\<lparr>thread_data :=
                update_first (\<lambda>td. thread_id td = t)
                  (\<lambda>td. td\<lparr>swap_chain_resources :=
                              array5_map_at i (\<lambda>p. p\<lparr>discard_pool := f (discard_pool p)\<rparr>)
                                (swap_chain_resources td)\<rparr>)
                  (thread_data dev)\<rparr>)"

text \<open>
  Modelled from the spec: a destruction request. "Any subsystem allocating transient GPU
  resources ... must release them through \<^verbatim>\<open>discard_pool_for_current_thread()\<close> rather
  than freeing GPU handles directly": the resource is enqueued into the pool that the
  call returns.
\<close>

definition destruction_request ::
  "'g VKDevice \<Rightarrow> pthread_t \<Rightarrow> 'g \<Rightarrow> nat \<times> resource_kind \<Rightarrow> retirement_marker \<Rightarrow> 'g VKDevice" where
  "destruction_request dev self graph res m =
     (let r = discard_pool_for_current_thread dev self graph
      in discard_pool_update (snd r) (fst r) (\<lambda>pool. enqueue pool res m))"

section \<open>Facts about the ring\<close>

lemma length_array5_list: "length (array5_list a) = 5"
  by (cases a) simp

lemma array5_at_in_bounds: "i < 5 \<Longrightarrow> array5_at a i = Some (array5_list a ! i)"
  by (simp add: array5_at_def array5_size_def length_array5_list)

lemma unat_UINT32_MAX: "unat UINT32_MAX = 4294967295"
  by (simp add: UINT32_MAX_def)

text \<open>
  Claim C5. For every thread data object: when \<^verbatim>\<open>current_swap_chain_index\<close> is
  greater than or equal to the ring size (5), \<^verbatim>\<open>resource_pool_get()\<close> returns the pool
  at index 0; otherwise it returns the pool at index \<^verbatim>\<open>current_swap_chain_index\<close>;
  it never performs an out-of-bounds read.
\<close>

theorem resource_pool_get_slot:
  "(array5_size (swap_chain_resources td) \<le> unat (current_swap_chain_index td) \<longrightarrow>
      resource_pool_get td = Some (array5_list (swap_chain_resources td) ! 0))
   \<and> (unat (current_swap_chain_index td) < array5_size (swap_chain_resources td) \<longrightarrow>
      resource_pool_get td =
        Some (array5_list (swap_chain_resources td) ! unat (current_swap_chain_index td)))
   \<and> resource_pool_get td \<noteq> None"
  by (simp add: resource_pool_get_def array5_at_def array5_size_def length_array5_list)

theorem resource_pool_get_slot_witness:
  "resource_pool_get
      \<lparr>thread_id = 1, render_graph = (), current_swap_chain_index = 7,
       swap_chain_resources = Array5 ''p0'' ''p1'' ''p2'' ''p3'' ''p4''\<rparr> = Some ''p0''
   \<and> resource_pool_get
      \<lparr>thread_id = 1, render_graph = (), current_swap_chain_index = 3,
       swap_chain_resources = Array5 ''p0'' ''p1'' ''p2'' ''p3'' ''p4''\<rparr> = Some ''p3''"
  using resource_pool_get_slot
          [of "\<lparr>thread_id = 1, render_graph = (), current_swap_chain_index = 7,
                swap_chain_resources = Array5 ''p0'' ''p1'' ''p2'' ''p3'' ''p4''\<rparr>"]
        resource_pool_get_slot
          [of "\<lparr>thread_id = 1, render_graph = (), current_swap_chain_index = 3,
                swap_chain_resources = Array5 ''p0'' ''p1'' ''p2'' ''p3'' ''p4''\<rparr>"]
  by (simp add: array5_size_def)

lemma resource_pool_index_less: "resource_pool_index td < 5"
  by (simp add: resource_pool_index_def array5_size_def length_array5_list)

lemma resource_pool_get_index:
  "resource_pool_get td = array5_at (swap_chain_resources td) (resource_pool_index td)"
  by (simp add: resource_pool_get_def resource_pool_index_def)

text \<open>
  The ring has five slots, whatever the object: the number is the one the header writes
  in the type \<^verbatim>\<open>std::array<VKResourcePool, 5>\<close>.
\<close>

lemma ring_size_five: "array5_size (swap_chain_resources td) = 5"
  by (simp add: array5_size_def length_array5_list)

text \<open>
  Claim C9. Every call of \<^verbatim>\<open>resource_pool_get()\<close> reads the ring at an index below its
  size, whatever the value of \<^verbatim>\<open>current_swap_chain_index\<close>, so the read returns an
  element. A newly constructed \<^verbatim>\<open>VKThreadData\<close> has \<^verbatim>\<open>current_swap_chain_index\<close> equal
  to \<^verbatim>\<open>UINT32_MAX\<close> (\<open>2^32 - 1\<close>, out of range), and its \<^verbatim>\<open>resource_pool_get()\<close>
  returns the pool at index 0.
\<close>

theorem resource_pool_get_in_bounds:
  "resource_pool_index td < array5_size (swap_chain_resources td)
   \<and> resource_pool_get td = Some (array5_list (swap_chain_resources td) ! resource_pool_index td)
   \<and> current_swap_chain_index (VKThreadData_new tid graph pools) = UINT32_MAX
   \<and> unat UINT32_MAX = 2 ^ 32 - 1
   \<and> resource_pool_index (VKThreadData_new tid graph pools) = 0
   \<and> resource_pool_get (VKThreadData_new tid graph pools) = Some (array5_list pools ! 0)"
proof -
  have in_range: "resource_pool_index td < array5_size (swap_chain_resources td)"
    by (simp add: resource_pool_index_less array5_size_def length_array5_list)
  have reads: "resource_pool_get td
      = Some (array5_list (swap_chain_resources td) ! resource_pool_index td)"
    by (simp add: resource_pool_get_index array5_at_in_bounds resource_pool_index_less)
  have sentinel: "current_swap_chain_index (VKThreadData_new tid graph pools) = UINT32_MAX"
    by (simp add: VKThreadData_new_def)
  have fresh_index: "resource_pool_index (VKThreadData_new tid graph pools) = 0"
    by (simp add: resource_pool_index_def VKThreadData_new_def unat_UINT32_MAX
        array5_size_def length_array5_list)
  have fresh_pool: "resource_pool_get (VKThreadData_new tid graph pools)
      = Some (array5_list pools ! 0)"
    by (simp add: resource_pool_get_index fresh_index array5_at_in_bounds)
       (simp add: VKThreadData_new_def)
  from in_range reads sentinel fresh_index fresh_pool show ?thesis
    by (simp add: unat_UINT32_MAX)
qed

section \<open>Facts about discard pools\<close>

lemma drain_entries_filter:
  "drain_entries force signalled es =
     (filter (\<lambda>e. signalled (entry_marker e) \<or> force) es,
      filter (\<lambda>e. \<not> (signalled (entry_marker e) \<or> force)) es)"
  by (induction es) (simp_all add: Let_def)

lemma drain_keeps_all_entries:
  "set (fst (drain force signalled pool)) \<union> set (pending (snd (drain force signalled pool)))
     = set (pending pool)"
  by (auto simp add: drain_def drain_entries_filter Let_def)

text \<open>
  Claim C1. For every entry of a discard pool whose retirement marker is not satisfied:
  \<^verbatim>\<open>drain(force = false)\<close> does not release the entry, which stays in the queue.
  \<^verbatim>\<open>drain(force = true)\<close> releases every pending entry, those with unsatisfied markers
  included, and leaves the queue empty.
\<close>

theorem drain_deferred_release:
  "(\<forall>e \<in> set (pending pool). \<not> signalled (entry_marker e) \<longrightarrow>
      e \<notin> set (fst (drain False signalled pool))
      \<and> e \<in> set (pending (snd (drain False signalled pool))))
   \<and> fst (drain True signalled pool) = pending pool
   \<and> pending (snd (drain True signalled pool)) = []"
proof -
  have unforced: "e \<notin> set (fst (drain False signalled pool))
      \<and> e \<in> set (pending (snd (drain False signalled pool)))"
    if "e \<in> set (pending pool)" and "\<not> signalled (entry_marker e)" for e
    using that by (simp add: drain_def drain_entries_filter Let_def)
  have forced: "fst (drain True signalled pool) = pending pool
      \<and> pending (snd (drain True signalled pool)) = []"
    by (simp add: drain_def drain_entries_filter Let_def)
  from unforced forced show ?thesis by blast
qed

theorem drain_deferred_release_witness:
  "fst (drain False (\<lambda>m. m \<le> 3)
         \<lparr>pending = [\<lparr>entry_handle = 10, entry_kind = KindBuffer, entry_marker = 2\<rparr>,
                     \<lparr>entry_handle = 11, entry_kind = KindImage, entry_marker = 5\<rparr>]\<rparr>)
     = [\<lparr>entry_handle = 10, entry_kind = KindBuffer, entry_marker = 2\<rparr>]
   \<and> pending (snd (drain False (\<lambda>m. m \<le> 3)
         \<lparr>pending = [\<lparr>entry_handle = 10, entry_kind = KindBuffer, entry_marker = 2\<rparr>,
                     \<lparr>entry_handle = 11, entry_kind = KindImage, entry_marker = 5\<rparr>]\<rparr>))
     = [\<lparr>entry_handle = 11, entry_kind = KindImage, entry_marker = 5\<rparr>]
   \<and> fst (drain True (\<lambda>m. m \<le> 3)
         \<lparr>pending = [\<lparr>entry_handle = 10, entry_kind = KindBuffer, entry_marker = 2\<rparr>,
                     \<lparr>entry_handle = 11, entry_kind = KindImage, entry_marker = 5\<rparr>]\<rparr>)
     = [\<lparr>entry_handle = 10, entry_kind = KindBuffer, entry_marker = 2\<rparr>,
        \<lparr>entry_handle = 11, entry_kind = KindImage, entry_marker = 5\<rparr>]"
  using drain_deferred_release
          [of "\<lparr>pending = [\<lparr>entry_handle = 10, entry_kind = KindBuffer, entry_marker = 2\<rparr>,
                           \<lparr>entry_handle = 11, entry_kind = KindImage, entry_marker = 5\<rparr>]\<rparr>"
              "\<lambda>m. m \<le> 3"]
  by (simp add: drain_def Let_def)

subsection \<open>References to discard pools\<close>

text \<open>
  Writing through a reference to a per-thread pool and reading it back gives the pool
  written, and leaves the orphan pool alone: the two operations on references agree.
\<close>

lemma array5_list_map_at:
  "array5_list (array5_map_at i f a) = (array5_list a)[i := f (array5_list a ! i)]"
proof (cases a)
  case (Array5 a0 a1 a2 a3 a4)
  consider "i = 0" | "i = 1" | "i = 2" | "i = 3" | "i = 4" | "5 \<le> i"
    by arith
  then show ?thesis
  proof cases
    case 6
    then have "(array5_list a)[i := f (array5_list a ! i)] = array5_list a"
      by (intro list_update_beyond) (simp add: length_array5_list)
    with 6 Array5 show ?thesis by simp
  qed (simp_all add: Array5 numeral_2_eq_2 numeral_3_eq_3 eval_nat_numeral)
qed

lemma array5_at_map_at:
  "array5_at (array5_map_at i f a) j =
     (if j = i then map_option f (array5_at a j) else array5_at a j)"
  by (simp add: array5_at_def array5_size_def length_array5_list array5_list_map_at)

lemma find_update_first:
  "(\<And>x. P x \<Longrightarrow> P (f x)) \<Longrightarrow> find P (update_first P f xs) = map_option f (find P xs)"
  by (induction xs) simp_all

lemma thread_pool_update_deref:
  "discard_pool_deref (discard_pool_update dev (ThreadDiscardPool t i) f) (ThreadDiscardPool t i)
     = map_option f (discard_pool_deref dev (ThreadDiscardPool t i))"
  by (simp add: discard_pool_deref_def discard_pool_update_def thread_data_find_def
      find_update_first array5_at_map_at option.map_comp comp_def split: option.splits)

lemma thread_pool_update_orphan:
  "orphaned_data (discard_pool_update dev (ThreadDiscardPool t i) f) = orphaned_data dev"
  by (simp add: discard_pool_update_def)

lemma find_append_last:
  "find P (xs @ [y]) = (case find P xs of Some x \<Rightarrow> Some x | None \<Rightarrow> (if P y then Some y else None))"
  by (induction xs) simp_all

lemma current_thread_data_found:
  "thread_data_find (snd (current_thread_data dev self graph)) self
     = Some (fst (current_thread_data dev self graph))"
proof (cases "thread_data_find dev self")
  case None
  then show ?thesis
    by (simp add: current_thread_data_def thread_data_find_def find_append_last Let_def
        VKThreadData_new_def)
next
  case (Some td)
  then show ?thesis
    by (simp add: current_thread_data_def)
qed

lemma current_thread_data_orphan:
  "orphaned_data (snd (current_thread_data dev self graph)) = orphaned_data dev"
  by (simp add: current_thread_data_def Let_def split: option.splits)

text \<open>
  Claim C3. For every call of \<^verbatim>\<open>discard_pool_for_current_thread()\<close>: when the calling
  thread has a registered context, the pool returned is the discard pool of the resource
  pool that \<^verbatim>\<open>resource_pool_get()\<close> selects in the thread's thread data, and that pool
  exists; otherwise the pool returned is the device's orphan discard pool. A destruction
  request from a thread with a context is enqueued into that per-thread pool and leaves
  the orphan pool as it was; a destruction request from a thread without a context is
  appended to the orphan pool and leaves every per-thread pool as it was.
\<close>

theorem discard_pool_routing:
  "(has_registered_context dev self \<longrightarrow>
      (\<exists>td pool.
          thread_data_find (snd (discard_pool_for_current_thread dev self graph)) self = Some td
          \<and> fst (discard_pool_for_current_thread dev self graph)
              = ThreadDiscardPool self (resource_pool_index td)
          \<and> resource_pool_get td = Some pool
          \<and> discard_pool_deref (snd (discard_pool_for_current_thread dev self graph))
                (fst (discard_pool_for_current_thread dev self graph))
              = Some (discard_pool pool)
          \<and> discard_pool_deref (destruction_request dev self graph res m)
                (fst (discard_pool_for_current_thread dev self graph))
              = Some (enqueue (discard_pool pool) res m))
      \<and> orphaned_data (snd (discard_pool_for_current_thread dev self graph)) = orphaned_data dev
      \<and> orphaned_data (destruction_request dev self graph res m) = orphaned_data dev)
   \<and> (has_registered_context dev self \<longrightarrow> thread_data_find dev self = Some td0 \<longrightarrow>
      discard_pool_for_current_thread dev self graph
        = (ThreadDiscardPool self (resource_pool_index td0), dev))
   \<and> (\<not> has_registered_context dev self \<longrightarrow>
      discard_pool_for_current_thread dev self graph = (OrphanDiscardPool, dev)
      \<and> discard_pool_deref dev OrphanDiscardPool = Some (orphaned_data dev)
      \<and> destruction_request dev self graph res m
        = dev\<lparr>orphaned_data := enqueue (orphaned_data dev) res m\<rparr>
      \<and> thread_data (destruction_request dev self graph res m) = thread_data dev
      \<and> pending (orphaned_data (destruction_request dev self graph res m))
        = pending (orphaned_data dev)
          @ [\<lparr>entry_handle = fst res, entry_kind = snd res, entry_marker = m\<rparr>])"
proof -
  let ?call = "discard_pool_for_current_thread dev self graph"
  let ?td = "fst (current_thread_data dev self graph)"
  have with_context:
    "\<exists>td pool.
        thread_data_find (snd ?call) self = Some td
        \<and> fst ?call = ThreadDiscardPool self (resource_pool_index td)
        \<and> resource_pool_get td = Some pool
        \<and> discard_pool_deref (snd ?call) (fst ?call) = Some (discard_pool pool)
        \<and> discard_pool_deref (destruction_request dev self graph res m) (fst ?call)
            = Some (enqueue (discard_pool pool) res m)"
    if ctx: "has_registered_context dev self"
  proof -
    from ctx have call: "?call = (ThreadDiscardPool self (resource_pool_index ?td),
        snd (current_thread_data dev self graph))"
      by (simp add: discard_pool_for_current_thread_def Let_def)
    have found: "thread_data_find (snd ?call) self = Some ?td"
      by (simp add: call current_thread_data_found)
    obtain pool where pool: "resource_pool_get ?td = Some pool"
      by (auto simp add: resource_pool_get_index array5_at_in_bounds resource_pool_index_less)
    have read: "discard_pool_deref (snd ?call) (fst ?call) = Some (discard_pool pool)"
      using found pool
      by (simp add: call discard_pool_deref_def resource_pool_get_index)
    have "discard_pool_deref (destruction_request dev self graph res m) (fst ?call)
        = map_option (\<lambda>p. enqueue p res m) (discard_pool_deref (snd ?call) (fst ?call))"
      by (simp add: destruction_request_def Let_def call thread_pool_update_deref)
    with read have "discard_pool_deref (destruction_request dev self graph res m) (fst ?call)
        = Some (enqueue (discard_pool pool) res m)"
      by simp
    with call found pool read show ?thesis
      by auto
  qed
  have with_context_orphan:
    "orphaned_data (snd ?call) = orphaned_data dev
      \<and> orphaned_data (destruction_request dev self graph res m) = orphaned_data dev"
    if "has_registered_context dev self"
    using that
    by (simp add: destruction_request_def discard_pool_for_current_thread_def Let_def
        thread_pool_update_orphan current_thread_data_orphan)
  have existing:
    "?call = (ThreadDiscardPool self (resource_pool_index td0), dev)"
    if "has_registered_context dev self" and "thread_data_find dev self = Some td0"
    using that
    by (simp add: discard_pool_for_current_thread_def current_thread_data_def Let_def)
  have orphan: "?call = (OrphanDiscardPool, dev)"
    if "\<not> has_registered_context dev self"
    using that by (simp add: discard_pool_for_current_thread_def)
  then have request:
    "destruction_request dev self graph res m
       = dev\<lparr>orphaned_data := enqueue (orphaned_data dev) res m\<rparr>"
    if "\<not> has_registered_context dev self"
    using that by (simp add: destruction_request_def discard_pool_update_def Let_def)
  have without_context:
    "?call = (OrphanDiscardPool, dev)
      \<and> discard_pool_deref dev OrphanDiscardPool = Some (orphaned_data dev)
      \<and> destruction_request dev self graph res m
        = dev\<lparr>orphaned_data := enqueue (orphaned_data dev) res m\<rparr>
      \<and> thread_data (destruction_request dev self graph res m) = thread_data dev
      \<and> pending (orphaned_data (destruction_request dev self graph res m))
        = pending (orphaned_data dev)
          @ [\<lparr>entry_handle = fst res, entry_kind = snd res, entry_marker = m\<rparr>]"
    if "\<not> has_registered_context dev self"
    using orphan [OF that] request [OF that]
    by (simp add: discard_pool_deref_def enqueue_def)
  from with_context with_context_orphan existing without_context show ?thesis
    by blast
qed

theorem discard_pool_routing_witness:
  "discard_pool_for_current_thread
     \<lparr>contexts = [\<lparr>context_id = 0, context_thread = 1\<rparr>],
      thread_data =
        [\<lparr>thread_id = 1, render_graph = (), current_swap_chain_index = 2,
          swap_chain_resources =
            Array5 VKResourcePool_new VKResourcePool_new VKResourcePool_new
                   VKResourcePool_new VKResourcePool_new\<rparr>],
      orphaned_data = \<lparr>pending = []\<rparr>\<rparr> 1 ()
     = (ThreadDiscardPool 1 2,
        \<lparr>contexts = [\<lparr>context_id = 0, context_thread = 1\<rparr>],
         thread_data =
           [\<lparr>thread_id = 1, render_graph = (), current_swap_chain_index = 2,
             swap_chain_resources =
               Array5 VKResourcePool_new VKResourcePool_new VKResourcePool_new
                      VKResourcePool_new VKResourcePool_new\<rparr>],
         orphaned_data = \<lparr>pending = []\<rparr>\<rparr>)
   \<and> fst (discard_pool_for_current_thread
        \<lparr>contexts = [\<lparr>context_id = 0, context_thread = 1\<rparr>],
         thread_data = [], orphaned_data = \<lparr>pending = []\<rparr>\<rparr> 1 ())
     = ThreadDiscardPool 1 0
   \<and> discard_pool_deref
        (destruction_request
           \<lparr>contexts = [\<lparr>context_id = 0, context_thread = 1\<rparr>],
            thread_data = [], orphaned_data = \<lparr>pending = []\<rparr>\<rparr> 1 () (42, KindBuffer) 7)
        (ThreadDiscardPool 1 0)
     = Some \<lparr>pending = [\<lparr>entry_handle = 42, entry_kind = KindBuffer, entry_marker = 7\<rparr>]\<rparr>
   \<and> destruction_request
        \<lparr>contexts = [\<lparr>context_id = 0, context_thread = 1\<rparr>],
         thread_data = [], orphaned_data = \<lparr>pending = []\<rparr>\<rparr> 9 () (42, KindBuffer) 7
     = \<lparr>contexts = [\<lparr>context_id = 0, context_thread = 1\<rparr>],
        thread_data = [],
        orphaned_data =
          \<lparr>pending = [\<lparr>entry_handle = 42, entry_kind = KindBuffer, entry_marker = 7\<rparr>]\<rparr>\<rparr>"
proof -
  let ?td = "\<lparr>thread_id = 1, render_graph = (), current_swap_chain_index = 2,
      swap_chain_resources =
        Array5 VKResourcePool_new VKResourcePool_new VKResourcePool_new
               VKResourcePool_new VKResourcePool_new\<rparr> :: (unit, VKResourcePool) VKThreadData"
  let ?ready = "\<lparr>contexts = [\<lparr>context_id = 0, context_thread = 1\<rparr>],
      thread_data = [?td], orphaned_data = \<lparr>pending = []\<rparr>\<rparr>"
  let ?bare = "\<lparr>contexts = [\<lparr>context_id = 0, context_thread = 1\<rparr>],
      thread_data = [] :: (unit, VKResourcePool) VKThreadData list,
      orphaned_data = \<lparr>pending = []\<rparr>\<rparr>"
  have ctx_ready: "has_registered_context ?ready 1"
    and ctx_bare: "has_registered_context ?bare 1"
    and no_ctx: "\<not> has_registered_context ?bare 9"
    by (simp_all add: has_registered_context_def)
  have found: "thread_data_find ?ready 1 = Some ?td"
    by (simp add: thread_data_find_def)
  have first: "discard_pool_for_current_thread ?ready 1 () = (ThreadDiscardPool 1 2, ?ready)"
    using discard_pool_routing [of ?ready 1 "()" "(42, KindBuffer)" 7 ?td] ctx_ready found
    by (simp add: resource_pool_index_def array5_size_def)
  have second: "fst (discard_pool_for_current_thread ?bare 1 ()) = ThreadDiscardPool 1 0
      \<and> discard_pool_deref (destruction_request ?bare 1 () (42, KindBuffer) 7)
           (ThreadDiscardPool 1 0)
         = Some \<lparr>pending = [\<lparr>entry_handle = 42, entry_kind = KindBuffer, entry_marker = 7\<rparr>]\<rparr>"
    using discard_pool_routing [of ?bare 1 "()" "(42, KindBuffer)" 7] ctx_bare
    by (simp add: discard_pool_for_current_thread_def current_thread_data_def
        thread_data_find_def Let_def VKThreadData_new_def resource_pool_index_def
        resource_pool_get_def array5_size_def array5_at_def unat_UINT32_MAX
        VKResourcePool_new_def enqueue_def)
  have third: "destruction_request ?bare 9 () (42, KindBuffer) 7
      = ?bare\<lparr>orphaned_data := enqueue (orphaned_data ?bare) (42, KindBuffer) 7\<rparr>"
    using discard_pool_routing [of ?bare 9 "()" "(42, KindBuffer)" 7] no_ctx
    by simp
  from first second third show ?thesis
    by (simp add: enqueue_def)
qed

end
